theory Spec2Isabelle
  imports Complex_Main
begin

section \<open>The code execution service\<close>

text \<open>
  A shallow embedding of \<^verbatim>\<open>backend/app/services/code_execution_service.py\<close>:
  \<^verbatim>\<open>CodeExecutionService.execute_code\<close>, \<^verbatim>\<open>_fallback_execute\<close> and
  \<^verbatim>\<open>check_solution\<close>. The service creates a temporary directory, writes the
  submitted source, compiles it when the language needs it, runs it, and removes the
  directory again. Everything the operating system decides (whether a tool is found,
  how long a process runs, what it prints, whether a file operation fails) is an
  explicit parameter, the \<open>host\<close>; everything the service changes outside itself
  (directories, child processes, time spent waiting) is an explicit state, the
  \<open>world\<close>.
\<close>

subsection \<open>Text\<close>

text \<open>
  A Python \<^verbatim>\<open>str\<close> is a sequence of Unicode code points, a \<^verbatim>\<open>bytes\<close> a sequence
  of octets. \<open>lit\<close> embeds the ASCII literals of the source.
\<close>

type_synonym str = "nat list"
type_synonym bytes = "char list"

definition lit :: "string \<Rightarrow> str" where
  "lit cs = map of_char cs"

text \<open>
  \<^verbatim>\<open>str.isspace\<close> for one code point: the code points with bidirectional type
  WS, B or S, or category Zs, as CPython's \<^verbatim>\<open>_PyUnicode_IsWhitespace\<close> lists them.
\<close>

definition isspace :: "nat \<Rightarrow> bool" where
  "isspace c \<longleftrightarrow>
     (0x09 \<le> c \<and> c \<le> 0x0D) \<or> (0x1C \<le> c \<and> c \<le> 0x20) \<or> c = 0x85 \<or> c = 0xA0 \<or>
     c = 0x1680 \<or> (0x2000 \<le> c \<and> c \<le> 0x200A) \<or> c = 0x2028 \<or> c = 0x2029 \<or>
     c = 0x202F \<or> c = 0x205F \<or> c = 0x3000"

text \<open>\<^verbatim>\<open>s.strip()\<close>: leading and trailing whitespace removed, nothing else touched.\<close>

definition strip :: "str \<Rightarrow> str" where
  "strip s = rev (dropWhile isspace (rev (dropWhile isspace s)))"

text \<open>\<^verbatim>\<open>x or d\<close> for an optional string: \<^verbatim>\<open>None\<close> and \<^verbatim>\<open>''\<close> are both falsy.\<close>

definition str_or :: "str option \<Rightarrow> str \<Rightarrow> str" where
  "str_or x d = (case x of None \<Rightarrow> d | Some s \<Rightarrow> if s = [] then d else s)"

definition opt_or :: "str option \<Rightarrow> str option \<Rightarrow> str option" where
  "opt_or x y = (case x of None \<Rightarrow> y | Some s \<Rightarrow> if s = [] then y else Some s)"

text \<open>\<^verbatim>\<open>os.path.join(a, b)\<close> on a POSIX host.\<close>

definition path_join :: "str \<Rightarrow> str \<Rightarrow> str" where
  "path_join a b =
     (if b \<noteq> [] \<and> hd b = 47 then b
      else if a = [] \<or> last a = 47 then a @ b
      else a @ [47] @ b)"

subsection \<open>Languages and results\<close>

datatype LanguageId = PYTHON | C | CPP | JAVA | JAVASCRIPT

fun LanguageId_value :: "LanguageId \<Rightarrow> int" where
  "LanguageId_value PYTHON = 71"
| "LanguageId_value C = 50"
| "LanguageId_value CPP = 54"
| "LanguageId_value JAVA = 62"
| "LanguageId_value JAVASCRIPT = 63"

definition LANGUAGE_MAP :: "str \<Rightarrow> LanguageId option" where
  "LANGUAGE_MAP = map_of
     [(lit ''python'', PYTHON),
      (lit ''c'', C),
      (lit ''cpp'', CPP),
      (lit ''java'', JAVA),
      (lit ''javascript'', JAVASCRIPT)]"

record ExecutionResult =
  stdout :: "str option"
  stderr :: "str option"
  compile_output :: "str option"
  status :: str
  status_id :: int
  time :: "str option"
  memory :: "int option"
  exit_code :: "int option"

text \<open>The constructor with the model's defaults: every optional field is \<^verbatim>\<open>None\<close>.\<close>

definition new_ExecutionResult :: "str \<Rightarrow> int \<Rightarrow> ExecutionResult" where
  "new_ExecutionResult st sid =
     \<lparr>stdout = None, stderr = None, compile_output = None, status = st, status_id = sid,
      time = None, memory = None, exit_code = None\<rparr>"

text \<open>The Judge0 submission that \<^verbatim>\<open>execute_code\<close> prepares.\<close>

record submission =
  sub_source_code :: str
  sub_language_id :: int
  sub_stdin :: str
  sub_expected_output :: "str option"
  sub_cpu_time_limit :: real
  sub_memory_limit :: int

text \<open>One entry of \<^verbatim>\<open>lang_config\<close>; \<^verbatim>\<open>python_exe\<close> is \<^verbatim>\<open>sys.executable\<close>.\<close>

record lang_cfg =
  ext :: str
  compile :: "str list option"
  run :: "str list"

definition lang_config :: "str \<Rightarrow> str \<Rightarrow> lang_cfg option" where
  "lang_config python_exe = map_of
     [(lit ''python'', \<lparr>ext = lit ''.py'', compile = None, run = [python_exe]\<rparr>),
      (lit ''javascript'', \<lparr>ext = lit ''.js'', compile = None, run = [lit ''node'']\<rparr>),
      (lit ''c'', \<lparr>ext = lit ''.c'', compile = Some [lit ''gcc'', lit ''-o''], run = []\<rparr>),
      (lit ''cpp'', \<lparr>ext = lit ''.cpp'', compile = Some [lit ''g++'', lit ''-o''], run = []\<rparr>),
      (lit ''java'', \<lparr>ext = lit ''.java'', compile = Some [lit ''javac''], run = [lit ''java'']\<rparr>)]"

subsection \<open>Exceptions, the host and the world\<close>

text \<open>
  The exceptions the handlers of \<^verbatim>\<open>_fallback_execute\<close> tell apart, with the text
  that \<^verbatim>\<open>str(e)\<close> gives: \<^verbatim>\<open>FileNotFoundError\<close>, \<^verbatim>\<open>asyncio.TimeoutError\<close>, and any other
  instance of \<^verbatim>\<open>Exception\<close> (\<^verbatim>\<open>OSError\<close>, \<^verbatim>\<open>UnicodeDecodeError\<close>, ...).
\<close>

datatype py_exc = FileNotFoundError str | TimeoutError | OtherException str

text \<open>
  What a child process does once it is started and given its input. \<open>Finishes d e out
  err returncode\<close>: it exits after \<open>d\<close> seconds with the return code, and its stdout
  and stderr, to which \<open>out\<close> and \<open>err\<close> have been written, are at end of file after
  \<open>e\<close> seconds; a descendant that inherits the pipes can hold them open long after
  the exit. \<open>Hangs\<close>: it never exits. \<open>Exits\<close> is the common case of a process whose
  pipes are closed when it exits.
\<close>

datatype behaviour = Finishes real real bytes bytes int | Hangs

abbreviation Exits :: "real \<Rightarrow> bytes \<Rightarrow> bytes \<Rightarrow> int \<Rightarrow> behaviour" where
  "Exits d out err returncode \<equiv> Finishes d d out err returncode"

text \<open>
  The world: the temporary directories that exist, the child processes started by the
  service that it has neither seen exit nor terminated (by process number), the number
  of processes started so far, and the seconds the service has spent waiting for child
  processes.
\<close>

record world =
  dirs :: "str list"
  running :: "nat list"
  spawned :: nat
  clock :: real

text \<open>
  The host answers every call the service makes to the outside: \<^verbatim>\<open>tempfile.mkdtemp\<close>,
  \<^verbatim>\<open>open(path, 'w')\<close> with \<^verbatim>\<open>f.write\<close>, \<^verbatim>\<open>asyncio.create_subprocess_exec\<close> (command
  and working directory), \<^verbatim>\<open>shutil.rmtree\<close>, \<^verbatim>\<open>str.encode\<close>, \<^verbatim>\<open>bytes.decode\<close> and
  \<^verbatim>\<open>traceback.format_exc\<close>. \<open>Inl\<close> (or \<open>Some\<close> for the calls without a value) is the
  exception the call raises.
\<close>

record host =
  python_exe :: str
  mkdtemp :: "world \<Rightarrow> py_exc + str"
  write_file :: "str \<Rightarrow> str \<Rightarrow> py_exc option"
  create_subprocess_exec :: "world \<Rightarrow> str list \<Rightarrow> str \<Rightarrow> py_exc + (bytes option \<Rightarrow> behaviour)"
  rmtree :: "str \<Rightarrow> py_exc option"
  encode :: "str \<Rightarrow> py_exc + bytes"
  decode :: "bytes \<Rightarrow> py_exc + str"
  format_exc :: "py_exc \<Rightarrow> str"

text \<open>Starting a child process: it gets the next process number and is running.\<close>

definition spawn ::
  "host \<Rightarrow> str list \<Rightarrow> str \<Rightarrow> world \<Rightarrow> (py_exc + nat \<times> (bytes option \<Rightarrow> behaviour)) \<times> world" where
  "spawn h cmd cwd w =
     (case create_subprocess_exec h w cmd cwd of
        Inl e \<Rightarrow> (Inl e, w)
      | Inr proc \<Rightarrow>
          (Inr (spawned w, proc),
           w\<lparr>running := spawned w # running w, spawned := Suc (spawned w)\<rparr>))"

text \<open>
  \<^verbatim>\<open>await asyncio.wait_for(process.communicate(input), timeout)\<close>.
  \<^verbatim>\<open>communicate\<close> returns once both pipes are at end of file and the process has
  exited; when that happens within the timeout, the output is returned. Otherwise the
  wait ends at the timeout with \<^verbatim>\<open>asyncio.TimeoutError\<close>: \<^verbatim>\<open>wait_for\<close> cancels the
  pending \<^verbatim>\<open>communicate\<close>, which sends the process no signal, so a process that has
  not exited by then stays among the running ones.
\<close>

definition wait_for ::
  "behaviour \<Rightarrow> real \<Rightarrow> nat \<Rightarrow> world \<Rightarrow> (py_exc + bytes \<times> bytes \<times> int) \<times> world" where
  "wait_for b timeout pid w =
     (case b of
        Finishes d e out err returncode \<Rightarrow>
          if d \<le> timeout \<and> e \<le> timeout
          then (Inr (out, err, returncode),
                w\<lparr>running := removeAll pid (running w), clock := clock w + max d e\<rparr>)
          else (Inl TimeoutError,
                w\<lparr>running := (if d \<le> timeout then removeAll pid (running w) else running w),
                  clock := clock w + timeout\<rparr>)
      | Hangs \<Rightarrow> (Inl TimeoutError, w\<lparr>clock := clock w + timeout\<rparr>))"

subsection \<open>Local execution\<close>

text \<open>
  The file the source is written to, the compile command and the run command, as
  \<^verbatim>\<open>_fallback_execute\<close> builds them from the language and the temporary directory.
\<close>

definition source_file_of :: "str \<Rightarrow> lang_cfg \<Rightarrow> str \<Rightarrow> str" where
  "source_file_of language config temp_dir =
     (if language = lit ''java'' then path_join temp_dir (lit ''Solution.java'')
      else path_join temp_dir (lit ''code'' @ ext config))"

definition compile_cmd_of :: "str \<Rightarrow> str list \<Rightarrow> str \<Rightarrow> str \<Rightarrow> str list" where
  "compile_cmd_of language cc temp_dir source_file =
     (if language = lit ''java'' then cc @ [source_file]
      else cc @ [path_join temp_dir (lit ''program''), source_file])"

definition run_cmd_of :: "str \<Rightarrow> lang_cfg \<Rightarrow> str \<Rightarrow> str \<Rightarrow> str list" where
  "run_cmd_of language config temp_dir source_file =
     (if language \<in> set [lit ''c'', lit ''cpp''] then [path_join temp_dir (lit ''program'')]
      else if language = lit ''java''
        then [lit ''java'', lit ''-cp'', temp_dir, lit ''Solution'']
      else run config @ [source_file])"

text \<open>
  \<^verbatim>\<open>stdin.encode() if stdin else None\<close> and \<^verbatim>\<open>x.decode() if x else None\<close>: an absent
  or empty value gives \<^verbatim>\<open>None\<close> without a call of the codec.
\<close>

definition stdin_bytes :: "host \<Rightarrow> str option \<Rightarrow> py_exc + bytes option" where
  "stdin_bytes h stdin =
     (case stdin of
        None \<Rightarrow> Inr None
      | Some s \<Rightarrow> if s = [] then Inr None else map_sum id Some (encode h s))"

definition decode_or_None :: "host \<Rightarrow> bytes \<Rightarrow> py_exc + str option" where
  "decode_or_None h b = (if b \<noteq> [] then map_sum id Some (decode h b) else Inr None)"

text \<open>
  The compile step inside its inner \<^verbatim>\<open>try\<close>: start the compiler, wait for it at
  most 30 seconds, and return early with a compilation error when its return code is
  not 0. \<open>Inr None\<close> means that the function goes on to the run phase.
\<close>

definition compile_step ::
  "host \<Rightarrow> str list \<Rightarrow> str \<Rightarrow> world \<Rightarrow> (py_exc + ExecutionResult option) \<times> world" where
  "compile_step h compile_cmd temp_dir w =
     (case spawn h compile_cmd temp_dir w of
        (Inl e, w1) \<Rightarrow> (Inl e, w1)
      | (Inr (pid, compile_process), w1) \<Rightarrow>
          (case wait_for (compile_process None) 30.0 pid w1 of
             (Inl e, w2) \<Rightarrow> (Inl e, w2)
           | (Inr (compile_out, compile_err, returncode), w2) \<Rightarrow>
               if returncode \<noteq> 0 then
                 (case (if compile_err \<noteq> [] then decode h compile_err
                        else Inr (lit ''Compilation failed'')) of
                    Inl e \<Rightarrow> (Inl e, w2)
                  | Inr msg \<Rightarrow>
                      (Inr (Some ((new_ExecutionResult (lit ''Compilation Error'') 6)
                         \<lparr>compile_output := Some msg, exit_code := Some returncode\<rparr>)), w2))
               else (Inr None, w2)))"

text \<open>
  \<^verbatim>\<open>if config['compile']: ...\<close> with the handler of the inner \<^verbatim>\<open>try\<close>:
  a \<^verbatim>\<open>FileNotFoundError\<close> becomes the result "Compiler Not Found".
\<close>

definition compile_phase ::
  "host \<Rightarrow> str \<Rightarrow> lang_cfg \<Rightarrow> str \<Rightarrow> str \<Rightarrow> world \<Rightarrow> (py_exc + ExecutionResult option) \<times> world" where
  "compile_phase h language config temp_dir source_file w =
     (case compile config of
        None \<Rightarrow> (Inr None, w)
      | Some cc \<Rightarrow>
          if cc = [] then (Inr None, w)
          else
            let compile_cmd = compile_cmd_of language cc temp_dir source_file
            in (case compile_step h compile_cmd temp_dir w of
                  (Inl (FileNotFoundError m), w1) \<Rightarrow>
                    let compiler = hd cc
                    in (Inr (Some ((new_ExecutionResult (lit ''Compiler Not Found'') (- 1))
                          \<lparr>stderr := Some (compiler @ lit '' not found. Please install '' @ compiler
                                @ lit '' to run '' @ language @ lit '' code locally.'')\<rparr>)), w1)
                | r \<Rightarrow> r))"

text \<open>
  The run step inside its inner \<^verbatim>\<open>try\<close>: start the program, encode the input,
  wait at most 5 seconds, decode what was captured. An empty capture is \<^verbatim>\<open>None\<close>.
\<close>

definition run_step ::
  "host \<Rightarrow> str list \<Rightarrow> str \<Rightarrow> str option \<Rightarrow> world \<Rightarrow> (py_exc + ExecutionResult) \<times> world" where
  "run_step h run_cmd temp_dir stdin w =
     (case spawn h run_cmd temp_dir w of
        (Inl e, w1) \<Rightarrow> (Inl e, w1)
      | (Inr (pid, process), w1) \<Rightarrow>
          (case stdin_bytes h stdin of
             Inl e \<Rightarrow> (Inl e, w1)
           | Inr input \<Rightarrow>
               (case wait_for (process input) 5.0 pid w1 of
                  (Inl e, w2) \<Rightarrow> (Inl e, w2)
                | (Inr (out, err, returncode), w2) \<Rightarrow>
                    (case decode_or_None h out of
                       Inl e \<Rightarrow> (Inl e, w2)
                     | Inr out_text \<Rightarrow>
                         (case decode_or_None h err of
                            Inl e \<Rightarrow> (Inl e, w2)
                          | Inr err_text \<Rightarrow>
                              (Inr \<lparr>stdout = out_text, stderr = err_text,
                                    compile_output = None,
                                    status = (if returncode = 0 then lit ''Accepted''
                                              else lit ''Runtime Error''),
                                    status_id = (if returncode = 0 then 3 else 11),
                                    time = None, memory = None,
                                    exit_code = Some returncode\<rparr>, w2))))))"

text \<open>
  The run command of each language and the handler of the inner \<^verbatim>\<open>try\<close>: a
  \<^verbatim>\<open>FileNotFoundError\<close> becomes the result "Runtime Not Found".
\<close>

definition run_phase ::
  "host \<Rightarrow> str \<Rightarrow> lang_cfg \<Rightarrow> str \<Rightarrow> str \<Rightarrow> str option \<Rightarrow> world \<Rightarrow>
   (py_exc + ExecutionResult) \<times> world" where
  "run_phase h language config temp_dir source_file stdin w =
     (let run_cmd = run_cmd_of language config temp_dir source_file
      in (case run_step h run_cmd temp_dir stdin w of
            (Inl (FileNotFoundError m), w1) \<Rightarrow>
              let runtime = hd run_cmd
              in (Inr ((new_ExecutionResult (lit ''Runtime Not Found'') (- 1))
                    \<lparr>stderr := Some (runtime @ lit '' not found. Please install it to run ''
                          @ language @ lit '' code locally.'')\<rparr>), w1)
          | r \<Rightarrow> r))"

text \<open>The body of the outer \<^verbatim>\<open>try\<close>: write the source file, compile, run.\<close>

definition try_body ::
  "host \<Rightarrow> str \<Rightarrow> str \<Rightarrow> str option \<Rightarrow> lang_cfg \<Rightarrow> str \<Rightarrow> world \<Rightarrow>
   (py_exc + ExecutionResult) \<times> world" where
  "try_body h source_code language stdin config temp_dir w =
     (let source_file = source_file_of language config temp_dir
      in (case write_file h source_file source_code of
            Some e \<Rightarrow> (Inl e, w)
          | None \<Rightarrow>
              (case compile_phase h language config temp_dir source_file w of
                 (Inl e, w1) \<Rightarrow> (Inl e, w1)
               | (Inr (Some r), w1) \<Rightarrow> (Inr r, w1)
               | (Inr None, w1) \<Rightarrow>
                   run_phase h language config temp_dir source_file stdin w1)))"

text \<open>The \<^verbatim>\<open>except\<close> clauses of the outer \<^verbatim>\<open>try\<close>, in the order of the source.\<close>

definition handlers :: "host \<Rightarrow> py_exc + ExecutionResult \<Rightarrow> ExecutionResult" where
  "handlers h r =
     (case r of
        Inr res \<Rightarrow> res
      | Inl TimeoutError \<Rightarrow>
          (new_ExecutionResult (lit ''Time Limit Exceeded'') 5)
            \<lparr>stderr := Some (lit ''Execution timed out (5 second limit)'')\<rparr>
      | Inl (FileNotFoundError m) \<Rightarrow>
          (new_ExecutionResult (lit ''Runtime Not Found'') (- 1))
            \<lparr>stderr := Some (lit ''Could not find runtime: '' @ m)\<rparr>
      | Inl (OtherException m) \<Rightarrow>
          (new_ExecutionResult (lit ''Error'') (- 1))
            \<lparr>stderr := Some (lit ''Execution error: '' @ m @ [10]
                  @ format_exc h (OtherException m))\<rparr>)"

text \<open>
  The \<^verbatim>\<open>finally\<close> clause: \<^verbatim>\<open>shutil.rmtree(temp_dir)\<close>, any exception of it swallowed.
  When the removal fails the directory is still there.
\<close>

definition cleanup :: "host \<Rightarrow> str \<Rightarrow> world \<Rightarrow> world" where
  "cleanup h temp_dir w =
     (case rmtree h temp_dir of
        None \<Rightarrow> w\<lparr>dirs := removeAll temp_dir (dirs w)\<rparr>
      | Some e \<Rightarrow> w)"

text \<open>
  \<^verbatim>\<open>_fallback_execute\<close>. \<^verbatim>\<open>tempfile.mkdtemp()\<close> is called before the \<^verbatim>\<open>try\<close>, so
  its exception leaves the function; everything after it is inside.
\<close>

definition fallback_execute ::
  "host \<Rightarrow> str \<Rightarrow> str \<Rightarrow> str option \<Rightarrow> world \<Rightarrow> (py_exc + ExecutionResult) \<times> world" where
  "fallback_execute h source_code language stdin w =
     (case lang_config (python_exe h) language of
        None \<Rightarrow>
          (Inr ((new_ExecutionResult (lit ''Unsupported'') (- 1))
             \<lparr>stderr := Some (lit ''Unsupported language: '' @ language)\<rparr>), w)
      | Some config \<Rightarrow>
          (case mkdtemp h w of
             Inl e \<Rightarrow> (Inl e, w)
           | Inr temp_dir \<Rightarrow>
               (case try_body h source_code language stdin config temp_dir
                       (w\<lparr>dirs := temp_dir # dirs w\<rparr>) of
                  (r, w1) \<Rightarrow> (Inr (handlers h r), cleanup h temp_dir w1))))"

text \<open>
  \<^verbatim>\<open>execute_code\<close>: the language check, the submission that is prepared and not
  sent, and the call of the local execution with source, language and input.
\<close>

definition execute_code ::
  "host \<Rightarrow> str \<Rightarrow> str \<Rightarrow> str option \<Rightarrow> str option \<Rightarrow> real \<Rightarrow> int \<Rightarrow> world \<Rightarrow>
   (py_exc + ExecutionResult) \<times> world" where
  "execute_code h source_code language stdin expected_output time_limit memory_limit w =
     (case LANGUAGE_MAP language of
        None \<Rightarrow>
          (Inr ((new_ExecutionResult (lit ''Error'') (- 1))
             \<lparr>stderr := Some (lit ''Unsupported language: '' @ language)\<rparr>), w)
      | Some lid \<Rightarrow>
          let language_id = LanguageId_value lid;
              submission =
                \<lparr>sub_source_code = source_code, sub_language_id = language_id,
                 sub_stdin = str_or stdin [], sub_expected_output = expected_output,
                 sub_cpu_time_limit = time_limit, sub_memory_limit = memory_limit\<rparr>
          in fallback_execute h source_code language stdin w)"

subsection \<open>Checking a solution against test cases\<close>

text \<open>
  A test case is a \<^verbatim>\<open>dict\<close> from keys to strings; \<open>dict_get\<close> is
  \<^verbatim>\<open>d.get(key, default)\<close>. One entry of the \<^verbatim>\<open>results\<close> list and the returned
  dictionary are records.
\<close>

type_synonym test_case = "str \<Rightarrow> str option"

definition dict_get :: "test_case \<Rightarrow> str \<Rightarrow> str \<Rightarrow> str" where
  "dict_get d k dflt = (case d k of None \<Rightarrow> dflt | Some v \<Rightarrow> v)"

record case_result =
  cr_test_case :: nat
  cr_passed :: bool
  cr_input :: str
  cr_expected :: str
  cr_actual :: str
  cr_status :: str
  cr_time :: "str option"
  cr_error :: "str option"

record report =
  passed :: nat
  total :: nat
  all_passed :: bool
  results :: "case_result list"

text \<open>The body of the loop after the execution: compare and record.\<close>

definition record_case :: "nat \<Rightarrow> test_case \<Rightarrow> ExecutionResult \<Rightarrow> case_result" where
  "record_case i test_case result =
     (let actual_output = strip (str_or (stdout result) []);
          expected_output = strip (dict_get test_case (lit ''expected_output'') []);
          is_correct = (actual_output = expected_output)
      in \<lparr>cr_test_case = i + 1, cr_passed = is_correct,
          cr_input = dict_get test_case (lit ''input'') [],
          cr_expected = expected_output, cr_actual = actual_output,
          cr_status = status result, cr_time = time result,
          cr_error = opt_or (stderr result) (compile_output result)\<rparr>)"

text \<open>
  The loop \<^verbatim>\<open>for i, test_case in enumerate(test_cases)\<close> with its two accumulators.
  An exception of \<^verbatim>\<open>execute_code\<close> ends it.
\<close>

fun check_loop ::
  "host \<Rightarrow> str \<Rightarrow> str \<Rightarrow> real \<Rightarrow> nat \<Rightarrow> test_case list \<Rightarrow> case_result list \<Rightarrow> nat \<Rightarrow> world \<Rightarrow>
   (py_exc + case_result list \<times> nat) \<times> world" where
  "check_loop h source_code language time_limit i [] results_acc passed_acc w =
     (Inr (results_acc, passed_acc), w)"
| "check_loop h source_code language time_limit i (test_case # rest) results_acc passed_acc w =
     (case execute_code h source_code language
             (Some (dict_get test_case (lit ''input'') []))
             (test_case (lit ''expected_output'')) time_limit 128000 w of
        (Inl e, w1) \<Rightarrow> (Inl e, w1)
      | (Inr result, w1) \<Rightarrow>
          let c = record_case i test_case result
          in check_loop h source_code language time_limit (i + 1) rest
               (results_acc @ [c]) (if cr_passed c then passed_acc + 1 else passed_acc) w1)"

definition check_solution ::
  "host \<Rightarrow> str \<Rightarrow> str \<Rightarrow> test_case list \<Rightarrow> real \<Rightarrow> world \<Rightarrow> (py_exc + report) \<times> world" where
  "check_solution h source_code language test_cases time_limit w =
     (case check_loop h source_code language time_limit 0 test_cases [] 0 w of
        (Inl e, w1) \<Rightarrow> (Inl e, w1)
      | (Inr (rs, p), w1) \<Rightarrow>
          (Inr \<lparr>passed = p, total = length test_cases,
                all_passed = (p = length test_cases), results = rs\<rparr>, w1))"

subsection \<open>Notions used in the statements, and example hosts\<close>

text \<open>
  A process outlasts a deadline when it has not exited by then. The wait for it
  overruns the deadline when it has not exited, or its pipes are not at end of file, by
  then.
\<close>

definition outlasts :: "behaviour \<Rightarrow> real \<Rightarrow> bool" where
  "outlasts b t = (case b of Finishes d e out err returncode \<Rightarrow> t < d | Hangs \<Rightarrow> True)"

definition overruns :: "behaviour \<Rightarrow> real \<Rightarrow> bool" where
  "overruns b t =
     (case b of Finishes d e out err returncode \<Rightarrow> t < d \<or> t < e | Hangs \<Rightarrow> True)"

text \<open>
  A world with nothing in it, and a host where every call succeeds: one temporary
  directory name, a codec for ASCII, and child processes that behave as \<open>progs\<close> says
  for their command line and input.
\<close>

definition world0 :: world where
  "world0 = \<lparr>dirs = [], running = [], spawned = 0, clock = 0\<rparr>"

definition ascii_decode :: "bytes \<Rightarrow> py_exc + str" where
  "ascii_decode b =
     (if list_all (\<lambda>c. (of_char c :: nat) < 128) b then Inr (map of_char b)
      else Inl (OtherException (lit ''codec cannot decode'')))"

definition ascii_encode :: "str \<Rightarrow> py_exc + bytes" where
  "ascii_encode s =
     (if list_all (\<lambda>n. n < 128) s then Inr (map char_of s)
      else Inl (OtherException (lit ''codec cannot encode'')))"

definition host0 :: "(str list \<Rightarrow> bytes option \<Rightarrow> behaviour) \<Rightarrow> host" where
  "host0 progs =
     \<lparr>python_exe = lit ''/usr/bin/python3'',
      mkdtemp = (\<lambda>w. Inr (lit ''/tmp/tmpx'')),
      write_file = (\<lambda>p t. None),
      create_subprocess_exec = (\<lambda>w cmd cwd. Inr (progs cmd)),
      rmtree = (\<lambda>p. None),
      encode = ascii_encode,
      decode = ascii_decode,
      format_exc = (\<lambda>e. lit ''Traceback (most recent call last)'')\<rparr>"

text \<open>
  The entries of \<^verbatim>\<open>lang_config\<close> for python and cpp on that host, and a host program
  table where the C++ compiler rejects the source.
\<close>

definition py_cfg :: lang_cfg where
  "py_cfg = \<lparr>ext = lit ''.py'', compile = None, run = [lit ''/usr/bin/python3'']\<rparr>"

definition cpp_cfg :: lang_cfg where
  "cpp_cfg = \<lparr>ext = lit ''.cpp'', compile = Some [lit ''g++'', lit ''-o''], run = []\<rparr>"

definition gxx_fails :: "str list \<Rightarrow> bytes option \<Rightarrow> behaviour" where
  "gxx_fails cmd input =
     (if hd cmd = lit ''g++'' then Exits 2 [] ''code.cpp:1: error: expected ;'' 1
      else Exits 0 ''ran'' [] 0)"

text \<open>
  A test case with both keys, and a program table where the output depends on the
  input: "42" and a newline for the input "a", " 43" for any other.
\<close>

definition test_case_of :: "str \<Rightarrow> str \<Rightarrow> test_case" where
  "test_case_of inp expected = map_of [(lit ''input'', inp), (lit ''expected_output'', expected)]"


section \<open>Properties\<close>

subsection \<open>Basic facts\<close>

lemma lit_eq_iff [simp]: "lit a = lit b \<longleftrightarrow> a = b"
  unfolding lit_def by (simp add: inj_map_eq_map inj_on_def)

lemma lit_Nil_iff [simp]: "lit a = [] \<longleftrightarrow> a = []" "[] = lit a \<longleftrightarrow> a = []"
  unfolding lit_def by auto

lemma lang_config_None_iff: "lang_config pe l = None \<longleftrightarrow> LANGUAGE_MAP l = None"
  by (simp add: lang_config_def LANGUAGE_MAP_def)

lemma LANGUAGE_MAP_None_iff:
  "LANGUAGE_MAP l = None \<longleftrightarrow>
   l \<notin> {lit ''python'', lit ''c'', lit ''cpp'', lit ''java'', lit ''javascript''}"
  by (auto simp add: LANGUAGE_MAP_def)

lemmas eval_defs =
  execute_code_def fallback_execute_def LANGUAGE_MAP_def lang_config_def host0_def
  try_body_def source_file_of_def compile_phase_def compile_step_def compile_cmd_of_def
  run_phase_def run_cmd_of_def run_step_def spawn_def wait_for_def stdin_bytes_def
  decode_or_None_def ascii_decode_def ascii_encode_def handlers_def cleanup_def
  new_ExecutionResult_def world0_def path_join_def

text \<open>Once the language is known, \<open>execute_code\<close> is the local execution.\<close>

lemma execute_code_supported:
  "LANGUAGE_MAP language \<noteq> None \<Longrightarrow>
   execute_code h source_code language stdin eo tlim ml w =
   fallback_execute h source_code language stdin w"
  by (auto simp add: execute_code_def Let_def)

lemma execute_code_in_try:
  assumes "lang_config (python_exe h) language = Some config"
    and "mkdtemp h w = Inr temp_dir"
  shows "execute_code h source_code language stdin eo tlim ml w =
     (Inr (handlers h (fst (try_body h source_code language stdin config temp_dir
             (w\<lparr>dirs := temp_dir # dirs w\<rparr>)))),
      cleanup h temp_dir (snd (try_body h source_code language stdin config temp_dir
             (w\<lparr>dirs := temp_dir # dirs w\<rparr>))))"
proof -
  from assms(1) have "LANGUAGE_MAP language \<noteq> None"
    using lang_config_None_iff [of "python_exe h" language] by simp
  then show ?thesis
    using assms by (simp add: execute_code_supported fallback_execute_def split: prod.split)
qed

text \<open>
  What each step leaves alone: no step of the \<^verbatim>\<open>try\<close> body touches the directories,
  and the waiting is bounded by the two timeouts.
\<close>

lemma spawn_frame:
  "spawn h cmd cwd w = (r, w1) \<Longrightarrow>
   dirs w1 = dirs w \<and> clock w1 = clock w \<and> spawned w \<le> spawned w1"
  by (auto simp add: spawn_def split: sum.splits)

lemma wait_for_frame:
  "wait_for b t pid w = (r, w1) \<Longrightarrow>
   dirs w1 = dirs w \<and> spawned w1 = spawned w \<and> clock w1 \<le> clock w + t"
  by (auto simp add: wait_for_def split: behaviour.splits if_splits)

lemma compile_step_frame:
  assumes "compile_step h cmd temp_dir w = (r, w1)"
  shows "dirs w1 = dirs w \<and> clock w1 \<le> clock w + 30"
  using assms
  by (auto simp add: compile_step_def split: prod.splits sum.splits if_splits
      dest!: spawn_frame wait_for_frame)

lemma compile_phase_frame:
  assumes "compile_phase h language config temp_dir source_file w = (r, w1)"
  shows "dirs w1 = dirs w \<and> clock w1 \<le> clock w + 30"
  using assms
  by (auto simp add: compile_phase_def Let_def
      split: option.splits if_splits prod.splits sum.splits py_exc.splits
      dest!: compile_step_frame)

lemma run_step_frame:
  assumes "run_step h cmd temp_dir stdin w = (r, w1)"
  shows "dirs w1 = dirs w \<and> clock w1 \<le> clock w + 5"
  using assms
  by (auto simp add: run_step_def split: prod.splits sum.splits if_splits
      dest!: spawn_frame wait_for_frame)

lemma run_phase_frame:
  assumes "run_phase h language config temp_dir source_file stdin w = (r, w1)"
  shows "dirs w1 = dirs w \<and> clock w1 \<le> clock w + 5"
  using assms
  by (auto simp add: run_phase_def Let_def split: prod.splits sum.splits py_exc.splits
      dest!: run_step_frame)

lemma try_body_frame:
  assumes "try_body h source_code language stdin config temp_dir w = (r, w1)"
  shows "dirs w1 = dirs w \<and> clock w1 \<le> clock w + 35"
  using assms
  by (auto simp add: try_body_def Let_def split: option.splits prod.splits sum.splits
      dest!: run_phase_frame compile_phase_frame)

subsection \<open>The time limit of a request\<close>

text \<open>
  The time and memory limits given to \<open>execute_code\<close> reach only the submission that
  is never sent.
\<close>

lemma execute_code_limits_unused:
  "execute_code h source_code language stdin eo t1 m1 w =
   execute_code h source_code language stdin eo t2 m2 w"
  by (simp add: execute_code_def Let_def split: option.split)

text \<open>
  C1. The run phase is bounded by the time limit of the request. The code does
  otherwise: the run phase always waits 5 seconds. A program that takes 3 seconds,
  run with a time limit of 1 second, is accepted; a program that takes 7 seconds, run
  with a time limit of 10 seconds, is cut off.
\<close>

theorem execute_code_ignores_time_limit:
  "fst (execute_code (host0 (\<lambda>cmd input. Exits 3 ''done'' [] 0)) (lit ''print(1)'')
          (lit ''python'') None None 1.0 128000 world0)
     = Inr ((new_ExecutionResult (lit ''Accepted'') 3)
              \<lparr>stdout := Some (lit ''done''), exit_code := Some 0\<rparr>)
   \<and> fst (execute_code (host0 (\<lambda>cmd input. Exits 7 ''done'' [] 0)) (lit ''print(1)'')
          (lit ''python'') None None 10.0 128000 world0)
     = Inr ((new_ExecutionResult (lit ''Time Limit Exceeded'') 5)
              \<lparr>stderr := Some (lit ''Execution timed out (5 second limit)'')\<rparr>)"
  by (simp add: eval_defs) (simp add: lit_def)

subsection \<open>Unsupported languages\<close>

text \<open>
  C2, as the code has it. For a language outside python, c, cpp, java and javascript,
  \<open>execute_code\<close> returns at once with the status "Error", the status id -1 and the
  message "Unsupported language: ..." in stderr; the world is unchanged, so no
  directory was created. The status "Unsupported" is what the local execution
  returns when it is called directly with such a language.
\<close>

theorem unsupported_language_result:
  assumes "language \<notin> {lit ''python'', lit ''c'', lit ''cpp'', lit ''java'', lit ''javascript''}"
  shows "execute_code h source_code language stdin eo tlim ml w =
           (Inr ((new_ExecutionResult (lit ''Error'') (- 1))
              \<lparr>stderr := Some (lit ''Unsupported language: '' @ language)\<rparr>), w)
       \<and> fallback_execute h source_code language stdin w =
           (Inr ((new_ExecutionResult (lit ''Unsupported'') (- 1))
              \<lparr>stderr := Some (lit ''Unsupported language: '' @ language)\<rparr>), w)"
proof -
  from assms have n: "LANGUAGE_MAP language = None"
    by (simp add: LANGUAGE_MAP_None_iff)
  then have "lang_config (python_exe h) language = None"
    by (simp add: lang_config_None_iff)
  with n show ?thesis
    by (simp add: execute_code_def fallback_execute_def)
qed

theorem unsupported_language_result_witness:
  "lit ''ruby'' \<notin> {lit ''python'', lit ''c'', lit ''cpp'', lit ''java'', lit ''javascript''}
   \<and> execute_code (host0 (\<lambda>cmd input. Exits 0 [] [] 0)) (lit ''puts 1'') (lit ''ruby'')
        None None 5.0 128000 world0 =
           (Inr ((new_ExecutionResult (lit ''Error'') (- 1))
              \<lparr>stderr := Some (lit ''Unsupported language: ruby'')\<rparr>), world0)
   \<and> dirs world0 = []"
proof -
  have h: "lit ''ruby'' \<notin> {lit ''python'', lit ''c'', lit ''cpp'', lit ''java'', lit ''javascript''}"
    by simp
  show ?thesis
    using h unsupported_language_result [OF h, of "host0 (\<lambda>cmd input. Exits 0 [] [] 0)"
        "lit ''puts 1''" None None "5.0" 128000 world0]
    by (simp add: world0_def) (simp add: lit_def)
qed

text \<open>The status of \<open>execute_code\<close> for the language ruby is "Error", not "Unsupported".\<close>

theorem unsupported_language_status_counterexample:
  "map_sum id status (fst (execute_code (host0 (\<lambda>cmd input. Exits 0 [] [] 0)) (lit ''puts 1'')
      (lit ''ruby'') None None 5.0 128000 world0)) = Inr (lit ''Error'')
   \<and> lit ''Error'' \<noteq> lit ''Unsupported''"
  by (simp add: execute_code_def LANGUAGE_MAP_def new_ExecutionResult_def)

subsection \<open>Reaching the run phase\<close>

lemma cleanup_frame:
  "running (cleanup h temp_dir w) = running w \<and> clock (cleanup h temp_dir w) = clock w
   \<and> spawned (cleanup h temp_dir w) = spawned w"
  by (simp add: cleanup_def split: option.split)

lemma cleanup_removes:
  "rmtree h temp_dir = None \<Longrightarrow> temp_dir \<notin> set (dirs (cleanup h temp_dir w))"
  by (simp add: cleanup_def)

lemma execute_code_reaches_run:
  assumes cfg: "lang_config (python_exe h) language = Some config"
    and tmp: "mkdtemp h w = Inr temp_dir"
    and wr: "write_file h (source_file_of language config temp_dir) source_code = None"
    and comp: "compile_phase h language config temp_dir (source_file_of language config temp_dir)
                 (w\<lparr>dirs := temp_dir # dirs w\<rparr>) = (Inr None, wc)"
  shows "execute_code h source_code language stdin eo tlim ml w =
     (Inr (handlers h (fst (run_phase h language config temp_dir
              (source_file_of language config temp_dir) stdin wc))),
      cleanup h temp_dir (snd (run_phase h language config temp_dir
              (source_file_of language config temp_dir) stdin wc)))"
  by (simp add: execute_code_in_try [OF cfg tmp] try_body_def Let_def wr comp)

lemma run_phase_timeout:
  assumes "create_subprocess_exec h wc (run_cmd_of language config temp_dir sf) temp_dir = Inr process"
    and "stdin_bytes h stdin = Inr input"
    and "overruns (process input) 5"
  shows "fst (run_phase h language config temp_dir sf stdin wc) = Inl TimeoutError
       \<and> clock (snd (run_phase h language config temp_dir sf stdin wc)) = clock wc + 5
       \<and> (outlasts (process input) 5 \<longrightarrow>
            spawned wc \<in> set (running (snd (run_phase h language config temp_dir sf stdin wc))))"
  using assms
  by (auto simp add: run_phase_def run_step_def spawn_def wait_for_def overruns_def
      outlasts_def Let_def split: behaviour.splits)

lemma run_phase_completes:
  assumes "create_subprocess_exec h wc (run_cmd_of language config temp_dir sf) temp_dir = Inr process"
    and "stdin_bytes h stdin = Inr input"
    and "process input = Finishes d e out err returncode" and "d \<le> 5" and "e \<le> 5"
    and "decode_or_None h out = Inr out_text" and "decode_or_None h err = Inr err_text"
  shows "run_phase h language config temp_dir sf stdin wc =
     (Inr \<lparr>stdout = out_text, stderr = err_text, compile_output = None,
           status = (if returncode = 0 then lit ''Accepted'' else lit ''Runtime Error''),
           status_id = (if returncode = 0 then 3 else 11),
           time = None, memory = None, exit_code = Some returncode\<rparr>,
      wc\<lparr>running := removeAll (spawned wc) (spawned wc # running wc),
         spawned := Suc (spawned wc), clock := clock wc + max d e\<rparr>)"
  using assms
  by (simp add: run_phase_def run_step_def spawn_def wait_for_def Let_def)

lemma handlers_Inr [simp]: "handlers h (Inr r) = r"
  by (simp add: handlers_def)

subsection \<open>A run that exceeds its deadline\<close>

text \<open>
  C3, as the code has it, for a request with the default time limit of 5 seconds.
  The run phase is reached when the language is supported, the directory is created,
  the source is written and the compile phase (if any) lets the function go on in
  world \<open>wc\<close>. When the wait for the process then overruns the time limit,
  \<open>execute_code\<close> returns the status "Time Limit Exceeded" with status id 5 and the
  message "Execution timed out (5 second limit)" in stderr. The service sends the
  process no signal: a process that has not exited by the time limit is still among
  the processes that the service has neither seen exit nor terminated when the call
  returns. The call has waited the time limit for the run and at most 30 seconds for
  the compilation before it.
\<close>

theorem run_timeout_result:
  assumes dflt: "tlim = 5"
    and cfg: "lang_config (python_exe h) language = Some config"
    and tmp: "mkdtemp h w = Inr temp_dir"
    and wr: "write_file h (source_file_of language config temp_dir) source_code = None"
    and comp: "compile_phase h language config temp_dir (source_file_of language config temp_dir)
                 (w\<lparr>dirs := temp_dir # dirs w\<rparr>) = (Inr None, wc)"
    and sp: "create_subprocess_exec h wc
               (run_cmd_of language config temp_dir (source_file_of language config temp_dir))
               temp_dir = Inr process"
    and inp: "stdin_bytes h stdin = Inr input"
    and late: "overruns (process input) tlim"
  shows "fst (execute_code h source_code language stdin eo tlim ml w) =
           Inr ((new_ExecutionResult (lit ''Time Limit Exceeded'') 5)
                  \<lparr>stderr := Some (lit ''Execution timed out (5 second limit)'')\<rparr>)
       \<and> (outlasts (process input) tlim \<longrightarrow>
            spawned wc \<in> set (running (snd (execute_code h source_code language stdin eo tlim ml w))))
       \<and> clock (snd (execute_code h source_code language stdin eo tlim ml w)) = clock wc + tlim
       \<and> clock wc \<le> clock w + 30"
proof -
  from compile_phase_frame [OF comp] have "clock wc \<le> clock w + 30" by simp
  moreover from late dflt have "overruns (process input) 5" by simp
  ultimately show ?thesis
    using run_phase_timeout [OF sp inp] dflt
    by (simp add: execute_code_reaches_run [OF cfg tmp wr comp] handlers_def cleanup_frame)
qed

theorem run_timeout_result_witness:
  "fst (execute_code (host0 (\<lambda>cmd input. Exits 7 ''done'' [] 0)) (lit ''print(1)'')
      (lit ''python'') None None 5.0 128000 world0)
     = Inr ((new_ExecutionResult (lit ''Time Limit Exceeded'') 5)
                  \<lparr>stderr := Some (lit ''Execution timed out (5 second limit)'')\<rparr>)
   \<and> 0 \<in> set (running (snd (execute_code (host0 (\<lambda>cmd input. Exits 7 ''done'' [] 0)) (lit ''print(1)'')
      (lit ''python'') None None 5.0 128000 world0)))
   \<and> clock (snd (execute_code (host0 (\<lambda>cmd input. Exits 7 ''done'' [] 0)) (lit ''print(1)'')
      (lit ''python'') None None 5.0 128000 world0)) = 5"
  using run_timeout_result [where h = "host0 (\<lambda>cmd input. Exits 7 ''done'' [] 0)" and language = "lit ''python''"
      and config = py_cfg and w = world0 and temp_dir = "lit ''/tmp/tmpx''"
      and source_code = "lit ''print(1)''" and wc = "world0\<lparr>dirs := [lit ''/tmp/tmpx'']\<rparr>"
      and process = "\<lambda>input. Exits 7 ''done'' [] 0" and stdin = None and input = None
      and eo = None and tlim = "5.0" and ml = 128000]
  by (simp add: lang_config_def host0_def world0_def py_cfg_def compile_phase_def
      stdin_bytes_def outlasts_def overruns_def)

text \<open>
  A Python program that never exits, run with the default time limit: the call
  returns "Time Limit Exceeded" and the process with number 0 is still running
  afterwards.
\<close>

theorem run_timeout_process_survives_counterexample:
  "map_sum id status (fst (execute_code (host0 (\<lambda>cmd input. Hangs)) (lit ''while True: pass'')
      (lit ''python'') None None 5.0 128000 world0)) = Inr (lit ''Time Limit Exceeded'')
   \<and> running (snd (execute_code (host0 (\<lambda>cmd input. Hangs)) (lit ''while True: pass'')
      (lit ''python'') None None 5.0 128000 world0)) = [0]"
  by (simp add: eval_defs)

subsection \<open>The temporary directory is removed\<close>

text \<open>The outcome of \<^verbatim>\<open>shutil.rmtree\<close> is consulted by the \<^verbatim>\<open>finally\<close> clause only.\<close>

lemma spawn_rmtree [simp]: "spawn (h\<lparr>rmtree := f\<rparr>) cmd cwd w = spawn h cmd cwd w"
  by (simp add: spawn_def)

lemma compile_step_rmtree [simp]:
  "compile_step (h\<lparr>rmtree := f\<rparr>) cmd temp_dir w = compile_step h cmd temp_dir w"
  by (simp add: compile_step_def cong: prod.case_cong sum.case_cong if_cong)

lemma compile_phase_rmtree [simp]:
  "compile_phase (h\<lparr>rmtree := f\<rparr>) l c t sf w = compile_phase h l c t sf w"
  by (simp add: compile_phase_def Let_def cong: option.case_cong if_cong)

lemma stdin_bytes_rmtree [simp]: "stdin_bytes (h\<lparr>rmtree := f\<rparr>) i = stdin_bytes h i"
  by (simp add: stdin_bytes_def split: option.split)

lemma decode_or_None_rmtree [simp]: "decode_or_None (h\<lparr>rmtree := f\<rparr>) b = decode_or_None h b"
  by (simp add: decode_or_None_def)

lemma run_step_rmtree [simp]:
  "run_step (h\<lparr>rmtree := f\<rparr>) cmd temp_dir i w = run_step h cmd temp_dir i w"
  by (simp add: run_step_def cong: prod.case_cong sum.case_cong)

lemma run_phase_rmtree [simp]:
  "run_phase (h\<lparr>rmtree := f\<rparr>) l c t sf i w = run_phase h l c t sf i w"
  by (simp add: run_phase_def Let_def)

lemma try_body_rmtree:
  "try_body (h\<lparr>rmtree := f\<rparr>) sc l i c t w = try_body h sc l i c t w"
  by (simp add: try_body_def Let_def cong: option.case_cong prod.case_cong sum.case_cong)

text \<open>
  C5. For every request with a supported language for which \<^verbatim>\<open>mkdtemp\<close> has created
  the directory \<open>temp_dir\<close>: \<open>execute_code\<close> returns a result, on every path through
  the \<^verbatim>\<open>try\<close> body; when \<^verbatim>\<open>rmtree\<close> succeeds, the directory is gone from the world
  after the call; and whatever \<^verbatim>\<open>rmtree\<close> answers, failure included, the result is the
  same and nothing is raised.
\<close>

theorem workspace_removed_on_every_path:
  assumes lang: "language \<in> {lit ''python'', lit ''c'', lit ''cpp'', lit ''java'', lit ''javascript''}"
    and tmp: "mkdtemp h w = Inr temp_dir"
  shows "\<exists>r w'. execute_code h source_code language stdin eo tlim ml w = (Inr r, w')
           \<and> (rmtree h temp_dir = None \<longrightarrow> temp_dir \<notin> set (dirs w'))
           \<and> (\<forall>f. fst (execute_code (h\<lparr>rmtree := f\<rparr>) source_code language stdin eo tlim ml w) = Inr r)"
proof -
  from lang obtain config where cfg: "lang_config (python_exe h) language = Some config"
    using lang_config_None_iff [of "python_exe h" language] LANGUAGE_MAP_None_iff [of language]
    by (cases "lang_config (python_exe h) language") auto
  have hinv: "handlers (h\<lparr>rmtree := f\<rparr>) r = handlers h r" for f r
    by (simp add: handlers_def split: sum.split py_exc.split)
  note inv = try_body_rmtree
  have "fst (execute_code (h\<lparr>rmtree := f\<rparr>) source_code language stdin eo tlim ml w) = 
        fst (execute_code h source_code language stdin eo tlim ml w)" for f
    using execute_code_in_try [of "h\<lparr>rmtree := f\<rparr>" language config w temp_dir] cfg tmp
    by (simp add: execute_code_in_try [OF cfg tmp] inv hinv)
  then show ?thesis
    by (simp add: execute_code_in_try [OF cfg tmp] cleanup_removes)
qed

theorem workspace_removed_on_every_path_witness:
  "\<exists>r w'. execute_code (host0 (\<lambda>cmd input. Exits 1 ''hi'' [] 0)) (lit ''print(1)'') (lit ''python'')
             None None 5.0 128000 world0 = (Inr r, w')
        \<and> lit ''/tmp/tmpx'' \<notin> set (dirs w')"
  using workspace_removed_on_every_path [where h = "host0 (\<lambda>cmd input. Exits 1 ''hi'' [] 0)" and language = "lit ''python''"
      and w = world0 and temp_dir = "lit ''/tmp/tmpx''" and source_code = "lit ''print(1)''"
      and stdin = None and eo = None and tlim = "5.0" and ml = 128000]
  by (auto simp add: host0_def)

subsection \<open>Faults inside the \<^verbatim>\<open>try\<close> block\<close>

lemma try_body_write_fault:
  "write_file h (source_file_of language config temp_dir) source_code = Some e \<Longrightarrow>
   try_body h source_code language stdin config temp_dir w = (Inl e, w)"
  by (simp add: try_body_def Let_def)

text \<open>
  C6, as the code has it. Once \<^verbatim>\<open>mkdtemp\<close> has succeeded, \<open>execute_code\<close> returns a
  result whatever happens: every exception raised by the body of the \<^verbatim>\<open>try\<close> is
  handled. An exception that is neither a \<^verbatim>\<open>FileNotFoundError\<close> nor a timeout gives
  the status "Error" with status id -1 and, in stderr, "Execution error: ", the
  message of the exception and the traceback.
\<close>

theorem faults_after_mkdtemp_become_results:
  assumes cfg: "lang_config (python_exe h) language = Some config"
    and tmp: "mkdtemp h w = Inr temp_dir"
  shows "\<exists>r. fst (execute_code h source_code language stdin eo tlim ml w) = Inr r \<and>
     (\<forall>m. fst (try_body h source_code language stdin config temp_dir (w\<lparr>dirs := temp_dir # dirs w\<rparr>))
            = Inl (OtherException m) \<longrightarrow>
          r = (new_ExecutionResult (lit ''Error'') (- 1))
                \<lparr>stderr := Some (lit ''Execution error: '' @ m @ [10] @ format_exc h (OtherException m))\<rparr>)"
  by (simp add: execute_code_in_try [OF cfg tmp] handlers_def)

theorem faults_after_mkdtemp_become_results_witness:
  "fst (execute_code
     ((host0 (\<lambda>cmd input. Exits 0 [] [] 0))
        \<lparr>write_file := (\<lambda>p t. Some (OtherException (lit ''[Errno 13] Permission denied'')))\<rparr>)
     (lit ''print(1)'') (lit ''python'') None None 5.0 128000 world0)
   = Inr ((new_ExecutionResult (lit ''Error'') (- 1))
           \<lparr>stderr := Some (lit ''Execution error: [Errno 13] Permission denied'' @ [10]
                @ lit ''Traceback (most recent call last)'')\<rparr>)"
  using faults_after_mkdtemp_become_results [where h = "(host0 (\<lambda>cmd input. Exits 0 [] [] 0))
        \<lparr>write_file := (\<lambda>p t. Some (OtherException (lit ''[Errno 13] Permission denied'')))\<rparr>"
      and language = "lit ''python''" and config = py_cfg and w = world0
      and temp_dir = "lit ''/tmp/tmpx''" and source_code = "lit ''print(1)''"
      and stdin = None and eo = None and tlim = "5.0" and ml = 128000]
  by (auto simp add: lang_config_def host0_def py_cfg_def try_body_def lit_def)

text \<open>
  \<^verbatim>\<open>tempfile.mkdtemp()\<close> is called before the \<^verbatim>\<open>try\<close>: when it raises (here for a
  full disk), the exception leaves \<open>execute_code\<close>.
\<close>

theorem mkdtemp_fault_escapes_counterexample:
  "fst (execute_code
     ((host0 (\<lambda>cmd input. Exits 0 [] [] 0))
        \<lparr>mkdtemp := (\<lambda>w. Inl (OtherException (lit ''[Errno 28] No space left on device'')))\<rparr>)
     (lit ''print(1)'') (lit ''python'') None None 5.0 128000 world0)
   = Inl (OtherException (lit ''[Errno 28] No space left on device''))"
  by (simp add: eval_defs)

subsection \<open>Compilation errors\<close>

lemma compile_phase_error:
  assumes cc: "compile config = Some cc" "cc \<noteq> []"
    and sp: "create_subprocess_exec h wa (compile_cmd_of language cc temp_dir sf) temp_dir
               = Inr compile_process"
    and ex: "compile_process None = Finishes d e out err returncode"
      "d \<le> 30" "e \<le> 30" "returncode \<noteq> 0"
    and dec: "err = [] \<or> decode h err = Inr msg"
  shows "compile_phase h language config temp_dir sf wa =
     (Inr (Some \<lparr>stdout = None, stderr = None,
             compile_output = Some (if err = [] then lit ''Compilation failed'' else msg),
             status = lit ''Compilation Error'', status_id = 6, time = None, memory = None,
             exit_code = Some returncode\<rparr>),
      wa\<lparr>running := removeAll (spawned wa) (spawned wa # running wa),
         spawned := Suc (spawned wa), clock := clock wa + max d e\<rparr>)"
  using assms
  by (auto simp add: compile_phase_def compile_step_def spawn_def wait_for_def Let_def
      new_ExecutionResult_def)

lemma compiled_languages:
  "(\<exists>config cc. lang_config pe language = Some config \<and> compile config = Some cc \<and> cc \<noteq> [])
   \<longleftrightarrow> language \<in> {lit ''c'', lit ''cpp'', lit ''java''}"
  by (auto simp add: lang_config_def split: if_splits)

text \<open>
  C7, as the code has it. For a language with a compile command (by
  \<open>compiled_languages\<close>: c, cpp and java), when the compiler is started, the wait for
  it ends within the 30 seconds with a return code other than 0, and its error output
  \<open>err\<close> is empty or decodes to the text \<open>msg\<close>: \<open>execute_code\<close> returns the status
  "Compilation Error" with status id 6, the compile output \<open>msg\<close> (or "Compilation
  failed" when \<open>err\<close> is empty), the return code of the compiler as exit code, and
  neither stdout nor stderr. The run phase is skipped: the compiler is the only
  process the call has started.
\<close>

theorem compile_error_result:
  assumes cfg: "lang_config (python_exe h) language = Some config"
    and cc: "compile config = Some cc" "cc \<noteq> []"
    and tmp: "mkdtemp h w = Inr temp_dir"
    and wr: "write_file h (source_file_of language config temp_dir) source_code = None"
    and sp: "create_subprocess_exec h (w\<lparr>dirs := temp_dir # dirs w\<rparr>)
               (compile_cmd_of language cc temp_dir (source_file_of language config temp_dir))
               temp_dir = Inr compile_process"
    and ex: "compile_process None = Finishes d e out err returncode"
      "d \<le> 30" "e \<le> 30" "returncode \<noteq> 0"
    and dec: "err = [] \<or> decode h err = Inr msg"
  shows "fst (execute_code h source_code language stdin eo tlim ml w) =
           Inr \<lparr>stdout = None, stderr = None,
                compile_output = Some (if err = [] then lit ''Compilation failed'' else msg),
                status = lit ''Compilation Error'', status_id = 6, time = None, memory = None,
                exit_code = Some returncode\<rparr>
       \<and> spawned (snd (execute_code h source_code language stdin eo tlim ml w)) = Suc (spawned w)"
  by (simp add: execute_code_in_try [OF cfg tmp] try_body_def Let_def wr
      compile_phase_error [OF cc sp ex dec] handlers_def cleanup_frame)

theorem compile_error_result_witness:
  "fst (execute_code (host0 gxx_fails) (lit ''int main() { return 0 }'') (lit ''cpp'')
          None None 5.0 128000 world0)
     = Inr ((new_ExecutionResult (lit ''Compilation Error'') 6)
             \<lparr>compile_output := Some (lit ''code.cpp:1: error: expected ;''), exit_code := Some 1\<rparr>)
   \<and> spawned (snd (execute_code (host0 gxx_fails) (lit ''int main() { return 0 }'') (lit ''cpp'')
          None None 5.0 128000 world0)) = 1"
  using compile_error_result [where h = "host0 gxx_fails" and language = "lit ''cpp''" and config = cpp_cfg
      and cc = "[lit ''g++'', lit ''-o'']" and w = world0 and temp_dir = "lit ''/tmp/tmpx''"
      and source_code = "lit ''int main() { return 0 }''"
      and compile_process = "gxx_fails [lit ''g++'', lit ''-o'', lit ''/tmp/tmpx/program'', lit ''/tmp/tmpx/code.cpp'']"
      and d = 2 and e = 2 and out = "[]" and err = "''code.cpp:1: error: expected ;''" and returncode = 1
      and msg = "lit ''code.cpp:1: error: expected ;''"
      and stdin = None and eo = None and tlim = "5.0" and ml = 128000]
  by (simp add: lang_config_def host0_def cpp_cfg_def world0_def gxx_fails_def
      compile_cmd_of_def source_file_of_def path_join_def ascii_decode_def new_ExecutionResult_def)
     (simp add: lit_def)

text \<open>
  A compiler that exits with return code 1 after writing the byte FF to stderr: the
  decoding raises, and the result has the status "Error" and no compile output. A
  compiler that exits with return code 1 only after 40 seconds: the wait ends at 30
  seconds, and the result has the status "Time Limit Exceeded".
\<close>

theorem compile_error_counterexample:
  "map_sum id status (fst (execute_code (host0 (\<lambda>cmd input. Exits 2 [] [CHR 0xFF] 1))
      (lit ''int main() { return 0 }'') (lit ''cpp'') None None 5.0 128000 world0))
     = Inr (lit ''Error'')
   \<and> map_sum id compile_output (fst (execute_code (host0 (\<lambda>cmd input. Exits 2 [] [CHR 0xFF] 1))
      (lit ''int main() { return 0 }'') (lit ''cpp'') None None 5.0 128000 world0))
     = Inr None
   \<and> map_sum id status (fst (execute_code (host0 (\<lambda>cmd input. Exits 40 [] ''error'' 1))
      (lit ''int main() { return 0 }'') (lit ''cpp'') None None 5.0 128000 world0))
     = Inr (lit ''Time Limit Exceeded'')"
  by (simp add: eval_defs)

subsection \<open>A run that completes\<close>

text \<open>
  C8, as the code has it, for a request with the default time limit of 5 seconds.
  When the run phase is reached, the process is started, the wait for it ends within
  the time limit (it has exited with return code \<open>returncode\<close> and its pipes are at end
  of file), and what it wrote decodes (\<open>out_text\<close> and \<open>err_text\<close>, \<^verbatim>\<open>None\<close> for an
  empty capture): the status is "Accepted" with status id 3 when the return code is 0
  and "Runtime Error" with status id 11 otherwise, and in both cases the result carries
  \<open>out_text\<close>, \<open>err_text\<close> and the return code.
\<close>

theorem run_completed_result:
  assumes dflt: "tlim = 5"
    and cfg: "lang_config (python_exe h) language = Some config"
    and tmp: "mkdtemp h w = Inr temp_dir"
    and wr: "write_file h (source_file_of language config temp_dir) source_code = None"
    and comp: "compile_phase h language config temp_dir (source_file_of language config temp_dir)
                 (w\<lparr>dirs := temp_dir # dirs w\<rparr>) = (Inr None, wc)"
    and sp: "create_subprocess_exec h wc
               (run_cmd_of language config temp_dir (source_file_of language config temp_dir))
               temp_dir = Inr process"
    and inp: "stdin_bytes h stdin = Inr input"
    and ex: "process input = Finishes d e out err returncode" "d \<le> tlim" "e \<le> tlim"
    and dec: "decode_or_None h out = Inr out_text" "decode_or_None h err = Inr err_text"
  shows "fst (execute_code h source_code language stdin eo tlim ml w) =
           Inr \<lparr>stdout = out_text, stderr = err_text, compile_output = None,
                status = (if returncode = 0 then lit ''Accepted'' else lit ''Runtime Error''),
                status_id = (if returncode = 0 then 3 else 11),
                time = None, memory = None, exit_code = Some returncode\<rparr>"
proof -
  from ex dflt have "d \<le> 5" and "e \<le> 5" by simp_all
  then show ?thesis
    by (simp add: execute_code_reaches_run [OF cfg tmp wr comp]
        run_phase_completes [OF sp inp ex(1) _ _ dec])
qed

theorem run_completed_result_witness:
  "fst (execute_code (host0 (\<lambda>cmd input. Exits 1 ''out'' ''warn'' 3)) (lit ''print(1)'')
      (lit ''python'') None None 5.0 128000 world0)
     = Inr \<lparr>stdout = Some (lit ''out''), stderr = Some (lit ''warn''), compile_output = None,
            status = lit ''Runtime Error'', status_id = 11, time = None, memory = None,
            exit_code = Some 3\<rparr>"
  using run_completed_result [where h = "host0 (\<lambda>cmd input. Exits 1 ''out'' ''warn'' 3)"
      and language = "lit ''python''"
      and config = py_cfg and w = world0 and temp_dir = "lit ''/tmp/tmpx''"
      and source_code = "lit ''print(1)''" and wc = "world0\<lparr>dirs := [lit ''/tmp/tmpx'']\<rparr>"
      and process = "\<lambda>input. Exits 1 ''out'' ''warn'' 3" and stdin = None and input = None
      and d = 1 and e = 1 and out = "''out''" and err = "''warn''" and returncode = 3
      and out_text = "Some (lit ''out'')" and err_text = "Some (lit ''warn'')"
      and eo = None and tlim = "5.0" and ml = 128000]
  by (simp add: lang_config_def host0_def world0_def py_cfg_def compile_phase_def
      stdin_bytes_def decode_or_None_def ascii_decode_def lit_def)

text \<open>
  A program that writes the byte FF to stdout and exits with return code 0 after one
  second: the decoding raises, and the result has the status "Error" with status id
  -1, no stdout and no exit code.
\<close>

theorem run_completed_undecodable_counterexample:
  "fst (execute_code (host0 (\<lambda>cmd input. Exits 1 [CHR 0xFF] [] 0)) (lit ''...'')
      (lit ''python'') None None 5.0 128000 world0)
   = Inr ((new_ExecutionResult (lit ''Error'') (- 1))
           \<lparr>stderr := Some (lit ''Execution error: codec cannot decode'' @ [10]
                @ lit ''Traceback (most recent call last)'')\<rparr>)"
  by (simp add: eval_defs) (simp add: lit_def)

subsection \<open>Empty output\<close>

lemma record_case_actual_None: "stdout r = None \<Longrightarrow> cr_actual (record_case i tc r) = []"
  by (simp add: record_case_def str_or_def strip_def Let_def)

text \<open>
  Whatever happens to a run whose process wrote no byte to stdout, the stdout of the
  result is \<^verbatim>\<open>None\<close>.
\<close>

lemma run_phase_silent_stdout:
  assumes sp: "create_subprocess_exec h wc (run_cmd_of language config temp_dir sf) temp_dir
                 = Inr process"
    and silent: "\<forall>input d e out err returncode. stdin_bytes h stdin = Inr input \<longrightarrow>
                   process input = Finishes d e out err returncode \<longrightarrow> out = []"
  shows "stdout (handlers h (fst (run_phase h language config temp_dir sf stdin wc))) = None"
proof (cases "stdin_bytes h stdin")
  case (Inl x)
  then show ?thesis
    using sp
    by (cases x) (simp_all add: run_phase_def run_step_def spawn_def handlers_def
        new_ExecutionResult_def Let_def)
next
  case (Inr input)
  show ?thesis
  proof (cases "process input")
    case Hangs
    with Inr sp show ?thesis
      by (simp add: run_phase_def run_step_def spawn_def wait_for_def handlers_def
          new_ExecutionResult_def Let_def)
  next
    case (Finishes d e out err returncode)
    with silent Inr have out: "out = []" by blast
    show ?thesis
    proof (cases "d \<le> 5 \<and> e \<le> 5")
      case False
      with Inr Finishes sp show ?thesis
        by (auto simp add: run_phase_def run_step_def spawn_def wait_for_def handlers_def
            new_ExecutionResult_def Let_def)
    next
      case True
      show ?thesis
      proof (cases "decode_or_None h err")
        case (Inl x)
        with True Inr Finishes sp out show ?thesis
          by (cases x) (simp_all add: run_phase_def run_step_def spawn_def wait_for_def
              handlers_def new_ExecutionResult_def decode_or_None_def Let_def)
      next
        case (Inr err_text)
        with True \<open>stdin_bytes h stdin = Inr input\<close> Finishes sp out show ?thesis
          by (simp add: run_phase_def run_step_def spawn_def wait_for_def
              decode_or_None_def Let_def)
      qed
    qed
  qed
qed

text \<open>
  C10, as the code has it. For every run phase that executes (the process is
  started): when the process wrote no byte to stdout, the stdout of the result is
  \<^verbatim>\<open>None\<close>, not the empty string, and the actual output that \<^verbatim>\<open>check_solution\<close>
  records for the case is the empty string. For stderr the same holds for a run that
  returns normally: with the default time limit of 5 seconds, when the input encodes,
  the wait ends within the time limit and what was written to stdout decodes, a
  process that wrote no byte to stderr gives a result whose stderr is \<^verbatim>\<open>None\<close>.
\<close>

theorem empty_output_is_None:
  assumes cfg: "lang_config (python_exe h) language = Some config"
    and tmp: "mkdtemp h w = Inr temp_dir"
    and wr: "write_file h (source_file_of language config temp_dir) source_code = None"
    and comp: "compile_phase h language config temp_dir (source_file_of language config temp_dir)
                 (w\<lparr>dirs := temp_dir # dirs w\<rparr>) = (Inr None, wc)"
    and sp: "create_subprocess_exec h wc
               (run_cmd_of language config temp_dir (source_file_of language config temp_dir))
               temp_dir = Inr process"
  shows "\<exists>r. fst (execute_code h source_code language stdin eo tlim ml w) = Inr r
           \<and> ((\<forall>input d e out err returncode. stdin_bytes h stdin = Inr input \<longrightarrow>
                  process input = Finishes d e out err returncode \<longrightarrow> out = [])
                \<longrightarrow> stdout r = None \<and> cr_actual (record_case i test_case r) = [])
           \<and> (\<forall>input d e out returncode out_text.
                  tlim = 5 \<longrightarrow> stdin_bytes h stdin = Inr input \<longrightarrow>
                  process input = Finishes d e out [] returncode \<longrightarrow> d \<le> tlim \<longrightarrow> e \<le> tlim \<longrightarrow>
                  decode_or_None h out = Inr out_text
                \<longrightarrow> stderr r = None)"
proof -
  let ?r = "handlers h (fst (run_phase h language config temp_dir
              (source_file_of language config temp_dir) stdin wc))"
  have res: "fst (execute_code h source_code language stdin eo tlim ml w) = Inr ?r"
    by (simp add: execute_code_reaches_run [OF cfg tmp wr comp])
  have a: "stdout ?r = None \<and> cr_actual (record_case i test_case ?r) = []"
    if "\<forall>input d e out err returncode. stdin_bytes h stdin = Inr input \<longrightarrow>
          process input = Finishes d e out err returncode \<longrightarrow> out = []"
    using run_phase_silent_stdout [OF sp that] by (simp add: record_case_actual_None)
  have b: "stderr ?r = None"
    if "tlim = 5" "stdin_bytes h stdin = Inr input"
      "process input = Finishes d e out [] returncode" "d \<le> tlim" "e \<le> tlim"
      "decode_or_None h out = Inr out_text"
    for input d e out returncode out_text
  proof -
    from that have "d \<le> 5" "e \<le> 5" by simp_all
    moreover have "decode_or_None h [] = Inr None" by (simp add: decode_or_None_def)
    ultimately show ?thesis
      using run_phase_completes [OF sp that(2) that(3) _ _ that(6)] by simp
  qed
  from res a b show ?thesis by blast
qed

theorem empty_output_is_None_witness:
  "\<exists>r. fst (execute_code (host0 (\<lambda>cmd input. Exits 1 [] [] 0)) (lit ''pass'')
      (lit ''python'') None None 5.0 128000 world0) = Inr r
     \<and> stdout r = None \<and> stderr r = None
     \<and> cr_actual (record_case 0 (test_case_of [] (lit ''42'')) r) = []"
proof -
  let ?h = "host0 (\<lambda>cmd input. Exits 1 [] [] 0)"
  have cfg: "lang_config (python_exe ?h) (lit ''python'') = Some py_cfg"
    by (simp add: lang_config_def host0_def py_cfg_def)
  have tmp: "mkdtemp ?h world0 = Inr (lit ''/tmp/tmpx'')"
    by (simp add: host0_def)
  have wr: "write_file ?h (source_file_of (lit ''python'') py_cfg (lit ''/tmp/tmpx'')) (lit ''pass'')
              = None"
    by (simp add: host0_def)
  have comp: "compile_phase ?h (lit ''python'') py_cfg (lit ''/tmp/tmpx'')
                (source_file_of (lit ''python'') py_cfg (lit ''/tmp/tmpx''))
                (world0\<lparr>dirs := lit ''/tmp/tmpx'' # dirs world0\<rparr>)
              = (Inr None, world0\<lparr>dirs := lit ''/tmp/tmpx'' # dirs world0\<rparr>)"
    by (simp add: compile_phase_def py_cfg_def)
  have sp: "create_subprocess_exec ?h (world0\<lparr>dirs := lit ''/tmp/tmpx'' # dirs world0\<rparr>)
              (run_cmd_of (lit ''python'') py_cfg (lit ''/tmp/tmpx'')
                 (source_file_of (lit ''python'') py_cfg (lit ''/tmp/tmpx'')))
              (lit ''/tmp/tmpx'') = Inr (\<lambda>input. Exits 1 [] [] 0)"
    by (simp add: host0_def)
  from empty_output_is_None [OF cfg tmp wr comp sp, of None None "5.0" 128000 0
      "test_case_of [] (lit ''42'')"]
  obtain r where
    r: "fst (execute_code ?h (lit ''pass'') (lit ''python'') None None 5.0 128000 world0) = Inr r"
    and a: "(\<forall>input d e out err returncode. stdin_bytes ?h None = Inr input \<longrightarrow>
              Exits 1 [] [] 0 = Finishes d e out err returncode \<longrightarrow> out = [])
            \<longrightarrow> stdout r = None \<and> cr_actual (record_case 0 (test_case_of [] (lit ''42'')) r) = []"
    and b: "\<forall>input d e out returncode out_text.
              (5.0 :: real) = 5 \<longrightarrow> stdin_bytes ?h None = Inr input \<longrightarrow>
              Exits 1 [] [] 0 = Finishes d e out [] returncode \<longrightarrow> d \<le> 5.0 \<longrightarrow> e \<le> 5.0 \<longrightarrow>
              decode_or_None ?h out = Inr out_text
            \<longrightarrow> stderr r = None"
    by blast
  from a have "stdout r = None \<and> cr_actual (record_case 0 (test_case_of [] (lit ''42'')) r) = []"
    by simp
  moreover from b [rule_format, of None 1 1 "[]" 0 None] have "stderr r = None"
    by (simp add: stdin_bytes_def decode_or_None_def)
  ultimately show ?thesis using r by blast
qed

text \<open>
  Two runs that write no byte to stderr, with the default time limit. A program that
  exits after 7 seconds: the stderr of the result is the message of the time limit. A
  program that writes the byte FF to stdout: the stderr of the result is the message
  of the fault.
\<close>

theorem empty_stderr_not_None_counterexample:
  "map_sum id stderr (fst (execute_code (host0 (\<lambda>cmd input. Exits 7 [] [] 0)) (lit ''...'')
      (lit ''python'') None None 5.0 128000 world0))
     = Inr (Some (lit ''Execution timed out (5 second limit)''))
   \<and> map_sum id stderr (fst (execute_code (host0 (\<lambda>cmd input. Exits 1 [CHR 0xFF] [] 0))
      (lit ''...'') (lit ''python'') None None 5.0 128000 world0))
     = Inr (Some (lit ''Execution error: codec cannot decode'' @ [10]
                @ lit ''Traceback (most recent call last)''))"
  by (simp add: eval_defs) (simp add: lit_def)

subsection \<open>Checking a solution\<close>

lemmas check_defs = check_solution_def record_case_def dict_get_def test_case_of_def
  str_or_def opt_or_def strip_def isspace_def

text \<open>
  Stripping removes whitespace at the two ends and nothing else: a string is its
  stripped form between two runs of whitespace, and a string that starts and ends with
  other characters is left as it is.
\<close>

lemma strip_edges:
  "\<exists>l t. s = l @ strip s @ t \<and> list_all isspace l \<and> list_all isspace t"
proof -
  let ?m = "dropWhile isspace s"
  have a: "s = takeWhile isspace s @ ?m" by simp
  have b: "?m = strip s @ rev (takeWhile isspace (rev ?m))"
  proof -
    have "rev (takeWhile isspace (rev ?m) @ dropWhile isspace (rev ?m)) = rev (rev ?m)"
      by (simp only: takeWhile_dropWhile_id)
    then have "rev (dropWhile isspace (rev ?m)) @ rev (takeWhile isspace (rev ?m)) = ?m"
      by (simp only: rev_append rev_rev_ident)
    then show ?thesis by (simp only: strip_def)
  qed
  have c: "list_all isspace (takeWhile isspace s)"
    by (simp add: list_all_iff) (meson set_takeWhileD)
  have d: "list_all isspace (rev (takeWhile isspace (rev ?m)))"
    by (simp add: list_all_iff) (meson set_takeWhileD)
  from a b have "s = takeWhile isspace s @ strip s @ rev (takeWhile isspace (rev ?m))" by simp
  with c d show ?thesis by blast
qed

lemma strip_fixed:
  assumes "s \<noteq> []" and "\<not> isspace (hd s)" and "\<not> isspace (last s)"
  shows "strip s = s"
proof -
  from assms(1,2) have "dropWhile isspace s = s" by (cases s) simp_all
  moreover from assms(1,3) have "dropWhile isspace (rev s) = rev s"
    by (cases "rev s") (simp_all add: last_rev [symmetric] hd_rev)
  ultimately show ?thesis by (simp add: strip_def)
qed

lemma strip_examples:
  "strip (lit ''42\<newline>'') = strip (lit ''42'') \<and> strip (lit '' 43'') \<noteq> strip (lit ''42'')"
  by (simp add: strip_def isspace_def lit_def)

lemma strip_more_examples:
  "strip (lit ''4 2'') \<noteq> strip (lit ''42'') \<and> strip (lit ''yes'') \<noteq> strip (lit ''Yes'')
   \<and> strip (lit ''1.0'') \<noteq> strip (lit ''1'')"
  by (simp add: strip_def isspace_def lit_def)

text \<open>
  The comparison does not look at the status: whatever the execution returned, the
  case passes exactly when the two stripped strings are equal.
\<close>

lemma record_case_passed:
  "cr_passed (record_case i tc r) \<longleftrightarrow>
     strip (str_or (stdout r) []) = strip (dict_get tc (lit ''expected_output'') [])"
  by (simp add: record_case_def Let_def)

text \<open>
  C4. A case whose execution does not end with the status "Accepted" is recorded as
  failed. The code does otherwise: a Python program that prints 42 and exits with
  return code 1 has the status "Runtime Error" and passes the case that expects 42;
  a C++ source that does not compile has the status "Compilation Error" and passes
  the case that expects no output.
\<close>

theorem check_solution_passes_failed_runs:
  "fst (check_solution (host0 (\<lambda>cmd input. Exits 1 ''42\<newline>'' ''boom'' 1))
          (lit ''print(42); raise SystemExit(1)'') (lit ''python'')
          [test_case_of [] (lit ''42'')] 5.0 world0)
     = Inr \<lparr>passed = 1, total = 1, all_passed = True,
            results = [\<lparr>cr_test_case = 1, cr_passed = True, cr_input = [],
                        cr_expected = lit ''42'', cr_actual = lit ''42'',
                        cr_status = lit ''Runtime Error'', cr_time = None,
                        cr_error = Some (lit ''boom'')\<rparr>]\<rparr>
   \<and> fst (check_solution (host0 gxx_fails) (lit ''int main() { return 0 }'') (lit ''cpp'')
          [test_case_of [] []] 5.0 world0)
     = Inr \<lparr>passed = 1, total = 1, all_passed = True,
            results = [\<lparr>cr_test_case = 1, cr_passed = True, cr_input = [],
                        cr_expected = [], cr_actual = [],
                        cr_status = lit ''Compilation Error'', cr_time = None,
                        cr_error = Some (lit ''code.cpp:1: error: expected ;'')\<rparr>]\<rparr>"
  by (simp add: check_defs eval_defs gxx_fails_def Let_def) (simp add: lit_def isspace_def)





end
